theory Spec2Isabelle
  imports Complex_Main "HOL-Library.Monad_Syntax"
begin

section \<open>Data model (src/types.ts)\<close>

text \<open>
  A TypeScript \<^verbatim>\<open>number\<close> is an IEEE double. Rounding is not modelled: a finite double
  is the real number it denotes. The three special values are kept, because the code
  tests for them (\<^verbatim>\<open>isNaN\<close>) and \<^verbatim>\<open>parseFloat\<close> and \<^verbatim>\<open>JSON.stringify\<close> treat them
  apart.
\<close>

datatype number = NaN | PosInf | NegInf | Fin real

text \<open>
  \<^verbatim>\<open>LatLngLiteral\<close> of Leaflet. Coordinates reach the program from the map surface
  (pointer events, marker positions) and are finite degrees, so both fields are reals.
\<close>

record LatLngLiteral =
  lat :: real
  lng :: real

datatype DrawingMode =
  Mode_none | Mode_point | Mode_circle | Mode_polyline | Mode_polygon | Mode_ruler

datatype ShapeType = Type_point | Type_circle | Type_polyline | Type_polygon

text \<open>
  \<^verbatim>\<open>MapObject = MapPoint | MapCircle | MapPolyline | MapPolygon\<close>. At run time each is
  one plain object: the five fields of \<^verbatim>\<open>BaseMapObject\<close> and the fields of its
  variant. The update path merges an untyped partial object into it field by field
  (\<^verbatim>\<open>{ ...target, ...updates }\<close>), so the record is flat and a field that the
  variant does not have is \<open>None\<close>. The fields \<^verbatim>\<open>id\<close> and \<^verbatim>\<open>type\<close> are
  \<open>obj_id\<close> and \<open>obj_type\<close> here. The radius can come from a text input and is
  a \<^typ>\<open>number\<close>.
\<close>

record MapObject =
  obj_id :: string
  layerId :: string
  obj_type :: ShapeType
  title :: string
  description :: string
  position :: "LatLngLiteral option"
  center :: "LatLngLiteral option"
  radius :: "number option"
  positions :: "LatLngLiteral list option"

text \<open>\<^verbatim>\<open>Partial<MapObject>\<close>: every field may be absent.\<close>

record PartialMapObject =
  upd_id :: "string option"
  upd_layerId :: "string option"
  upd_type :: "ShapeType option"
  upd_title :: "string option"
  upd_description :: "string option"
  upd_position :: "LatLngLiteral option"
  upd_center :: "LatLngLiteral option"
  upd_radius :: "number option"
  upd_positions :: "LatLngLiteral list option"

text \<open>\<^verbatim>\<open>LayerStyle\<close>. Width and opacity are set by range sliders and are finite.\<close>

record LayerStyle =
  borderColor :: string
  borderWidth :: real
  fillColor :: string
  fillOpacity :: real

text \<open>\<^verbatim>\<open>Layer\<close>; its field \<^verbatim>\<open>id\<close> is \<open>layer_id\<close> here.\<close>

record Layer =
  layer_id :: string
  name :: string
  visible :: bool
  style :: LayerStyle

section \<open>Application state (src/App.tsx, src/components/MapBoard.tsx)\<close>

text \<open>
  The calls the handlers make on the persistence collaborator (src/utils/firebase.ts),
  in the order they are issued. The first argument is the uid of the signed-in user.
\<close>

datatype persist_call =
  SaveLayers string "Layer list"
| SaveObject string MapObject
| DeleteObject string string
| SaveObjectsBatch string "MapObject list"

text \<open>
  The \<^verbatim>\<open>useState\<close> cells of \<^verbatim>\<open>App\<close> (user to rulerPoints) and of \<^verbatim>\<open>MapEvents\<close>
  (tempPoints, circleCenter, dragPoint), and the log of persistence calls. For \<open>user\<close>
  only the uid is kept. The cell \<^verbatim>\<open>flyToTarget\<close>, which only the map navigation reads,
  is left out, and so is the effect of App that points \<^verbatim>\<open>activeLayerId\<close> at an existing
  layer again after the layer list has changed.
\<close>

record AppState =
  user :: "string option"
  layers :: "Layer list"
  activeLayerId :: string
  objects :: "MapObject list"
  drawingMode :: DrawingMode
  selectedObjectId :: "string option"
  rulerPoints :: "LatLngLiteral list"
  tempPoints :: "LatLngLiteral list"
  circleCenter :: "LatLngLiteral option"
  dragPoint :: "LatLngLiteral option"
  persisted :: "persist_call list"

text \<open>A handler's \<^verbatim>\<open>if (user) f(user.uid, ...)\<close>.\<close>

definition persist :: "(string \<Rightarrow> persist_call list) \<Rightarrow> AppState \<Rightarrow> AppState" where
  "persist calls st =
     (case user st of
        None \<Rightarrow> st
      | Some uid \<Rightarrow> st\<lparr>persisted := persisted st @ calls uid\<rparr>)"

section \<open>GeoMath (src/utils/geoUtils.ts)\<close>

text \<open>Earth radius in meters.\<close>

definition R :: real where
  "R = 6371000"

definition toRad :: "real \<Rightarrow> real" where
  "toRad v = (v * pi) / 180"

text \<open>
  \<^verbatim>\<open>Math.atan2(y, x)\<close> on finite arguments: the angle of the point \<open>(x, y)\<close> in
  \<open>(-\<pi>, \<pi>]\<close>, and 0 at the origin.
\<close>

definition Math_atan2 :: "real \<Rightarrow> real \<Rightarrow> real" where
  "Math_atan2 y x =
     (if 0 < x then arctan (y / x)
      else if x < 0 then (if 0 \<le> y then arctan (y / x) + pi else arctan (y / x) - pi)
      else if 0 < y then pi / 2
      else if y < 0 then - (pi / 2)
      else 0)"

text \<open>
  \<^verbatim>\<open>calculateDistance\<close>. The term \<open>a\<close> lies in \<open>[0, 1]\<close> (lemma \<open>haversine_a_range\<close>
  below), so both \<^verbatim>\<open>Math.sqrt\<close> calls have a non-negative argument and \<^const>\<open>sqrt\<close>
  models them.
\<close>

definition calculateDistance :: "real \<Rightarrow> real \<Rightarrow> real \<Rightarrow> real \<Rightarrow> real" where
  "calculateDistance lat1 lon1 lat2 lon2 =
     (let dLat = toRad (lat2 - lat1);
          dLon = toRad (lon2 - lon1);
          a = sin (dLat / 2) * sin (dLat / 2) +
              cos (toRad lat1) * cos (toRad lat2) * sin (dLon / 2) * sin (dLon / 2);
          c = 2 * Math_atan2 (sqrt a) (sqrt (1 - a))
      in R * c)"

section \<open>Object store (MapBoard, lines 912 to 944)\<close>

text \<open>The spread \<^verbatim>\<open>{ ...target, ...updates }\<close>: a field of \<open>updates\<close> wins where present.\<close>

definition spread :: "MapObject \<Rightarrow> PartialMapObject \<Rightarrow> MapObject" where
  "spread target updates =
     \<lparr> obj_id = (case upd_id updates of Some v \<Rightarrow> v | None \<Rightarrow> obj_id target),
       layerId = (case upd_layerId updates of Some v \<Rightarrow> v | None \<Rightarrow> layerId target),
       obj_type = (case upd_type updates of Some v \<Rightarrow> v | None \<Rightarrow> obj_type target),
       title = (case upd_title updates of Some v \<Rightarrow> v | None \<Rightarrow> title target),
       description =
         (case upd_description updates of Some v \<Rightarrow> v | None \<Rightarrow> description target),
       position = (case upd_position updates of Some v \<Rightarrow> Some v | None \<Rightarrow> position target),
       center = (case upd_center updates of Some v \<Rightarrow> Some v | None \<Rightarrow> center target),
       radius = (case upd_radius updates of Some v \<Rightarrow> Some v | None \<Rightarrow> radius target),
       positions =
         (case upd_positions updates of Some v \<Rightarrow> Some v | None \<Rightarrow> positions target) \<rparr>"

text \<open>
  \<^verbatim>\<open>handleObjectUpdate\<close> of MapBoard, with \<^verbatim>\<open>onObjectUpdate\<close> of App
  (\<^verbatim>\<open>handleObjectUpdate\<close> there: save the object when a user is signed in).
\<close>

definition handleObjectUpdate :: "string \<Rightarrow> PartialMapObject \<Rightarrow> AppState \<Rightarrow> AppState" where
  "handleObjectUpdate i updates st =
     (case find (\<lambda>x. obj_id x = i) (objects st) of
        None \<Rightarrow> st
      | Some target \<Rightarrow>
          (let updatedObject = spread target updates in
           persist (\<lambda>uid. [SaveObject uid updatedObject])
             (st\<lparr>objects := map (\<lambda>x. if obj_id x = i then updatedObject else x) (objects st)\<rparr>)))"

text \<open>\<^verbatim>\<open>deleteObject\<close> of MapBoard, with \<^verbatim>\<open>onObjectDelete\<close> of App.\<close>

definition deleteObject :: "string \<Rightarrow> AppState \<Rightarrow> AppState" where
  "deleteObject i st =
     (let st1 = st\<lparr>objects := filter (\<lambda>x. obj_id x \<noteq> i) (objects st)\<rparr>;
          st2 = (if selectedObjectId st = Some i then st1\<lparr>selectedObjectId := None\<rparr> else st1)
      in persist (\<lambda>uid. [DeleteObject uid i]) st2)"

text \<open>\<^verbatim>\<open>handleNewObject\<close> of MapBoard, with \<^verbatim>\<open>onNewObject\<close> of App.\<close>

definition handleNewObject :: "MapObject \<Rightarrow> AppState \<Rightarrow> AppState" where
  "handleNewObject obj st =
     persist (\<lambda>uid. [SaveObject uid obj]) (st\<lparr>objects := objects st @ [obj]\<rparr>)"

section \<open>Layers (App, lines 115 to 135)\<close>

text \<open>
  \<^verbatim>\<open>handleDeleteLayer\<close>. \<^verbatim>\<open>newLayers[0].id\<close> throws a TypeError when \<^verbatim>\<open>newLayers\<close> is
  empty (every layer had the id \<open>i\<close>); the handler then stops before the persistence
  calls, and the two state updates it has already queued (layers, objects) still apply.
\<close>

definition handleDeleteLayer :: "string \<Rightarrow> AppState \<Rightarrow> AppState" where
  "handleDeleteLayer i st =
     (if length (layers st) \<le> 1 then st
      else
        (let newLayers = filter (\<lambda>l. layer_id l \<noteq> i) (layers st);
             objectsToDelete = filter (\<lambda>x. layerId x = i) (objects st);
             objectsToKeep = filter (\<lambda>x. layerId x \<noteq> i) (objects st);
             st1 = st\<lparr>layers := newLayers, objects := objectsToKeep\<rparr>;
             calls = (\<lambda>uid. SaveLayers uid newLayers #
                        map (\<lambda>obj. DeleteObject uid (obj_id obj)) objectsToDelete)
         in if activeLayerId st = i
            then (case newLayers of
                    [] \<Rightarrow> st1
                  | l # _ \<Rightarrow> persist calls (st1\<lparr>activeLayerId := layer_id l\<rparr>))
            else persist calls st1))"

section \<open>Drawing session (App, lines 203 to 211; MapEvents, lines 651 to 811)\<close>

text \<open>\<^verbatim>\<open>handleSetDrawingMode\<close> of App: what the toolbar and MapBoard call to set the mode.\<close>

definition handleSetDrawingMode :: "DrawingMode \<Rightarrow> AppState \<Rightarrow> AppState" where
  "handleSetDrawingMode mode st =
     (let st1 = st\<lparr>drawingMode := mode\<rparr>;
          st2 = (if mode \<noteq> Mode_ruler then st1\<lparr>rulerPoints := []\<rparr> else st1)
      in if mode \<noteq> Mode_none then st2\<lparr>selectedObjectId := None\<rparr> else st2)"

text \<open>
  The effect of MapEvents with the comment ``Clear temporary state when drawing mode
  changes'' (lines 666 to 675). It reads the mode that is now active.
\<close>

definition clearTemporaryState :: "AppState \<Rightarrow> AppState" where
  "clearTemporaryState st =
     (let st1 = (if drawingMode st \<noteq> Mode_circle
                 then st\<lparr>circleCenter := None, dragPoint := None\<rparr> else st)
      in if drawingMode st1 \<noteq> Mode_polyline \<and> drawingMode st1 \<noteq> Mode_polygon
         then st1\<lparr>tempPoints := []\<rparr> else st1)"

text \<open>
  A mode switch: \<^verbatim>\<open>handleSetDrawingMode(mode)\<close>, then the render that follows it. The
  effect above has the dependency array \<^verbatim>\<open>[drawingMode]\<close>, so it runs when the mode has
  changed and only then.
\<close>

definition switchMode :: "DrawingMode \<Rightarrow> AppState \<Rightarrow> AppState" where
  "switchMode mode st =
     (let st1 = handleSetDrawingMode mode st
      in if drawingMode st1 \<noteq> drawingMode st then clearTemporaryState st1 else st1)"

text \<open>
  \<^verbatim>\<open>handleClick\<close> of MapEvents. \<open>uuid\<close> is the value of \<^verbatim>\<open>crypto.randomUUID()\<close>, \<open>point\<close>
  the \<^verbatim>\<open>latlng\<close> of the event.
\<close>

definition handleClick :: "string \<Rightarrow> LatLngLiteral \<Rightarrow> AppState \<Rightarrow> AppState" where
  "handleClick uuid point st =
     (if drawingMode st = Mode_none then st\<lparr>selectedObjectId := None\<rparr>
      else if drawingMode st = Mode_point then
        (let newPoint = \<lparr> obj_id = uuid, layerId = activeLayerId st, obj_type = Type_point,
                          title = ''New Point'', description = ''No description'',
                          position = Some point, center = None, radius = None,
                          positions = None \<rparr>
         in switchMode Mode_none (handleNewObject newPoint st))
      else if drawingMode st = Mode_circle then
        (case circleCenter st of
           None \<Rightarrow> st\<lparr>circleCenter := Some point, dragPoint := Some point\<rparr>
         | Some c \<Rightarrow>
             (let radius = calculateDistance (lat c) (lng c) (lat point) (lng point);
                  newCircle = \<lparr> obj_id = uuid, layerId = activeLayerId st,
                                 obj_type = Type_circle, title = ''New Circle'',
                                 description = ''No description'', position = None,
                                 center = Some c, radius = Some (Fin radius),
                                 positions = None \<rparr>;
                  st1 = (if 0 < radius then handleNewObject newCircle st else st)
              in switchMode Mode_none (st1\<lparr>circleCenter := None, dragPoint := None\<rparr>)))
      else if drawingMode st = Mode_polyline \<or> drawingMode st = Mode_polygon then
        st\<lparr>tempPoints := tempPoints st @ [point]\<rparr>
      else if drawingMode st = Mode_ruler then
        st\<lparr>rulerPoints := rulerPoints st @ [point]\<rparr>
      else st)"

text \<open>\<^verbatim>\<open>handleMouseMove\<close> of MapEvents: the circle preview follows the pointer.\<close>

definition handleMouseMove :: "LatLngLiteral \<Rightarrow> AppState \<Rightarrow> AppState" where
  "handleMouseMove point st =
     (if drawingMode st = Mode_circle \<and> circleCenter st \<noteq> None
      then st\<lparr>dragPoint := Some point\<rparr> else st)"

text \<open>
  \<^verbatim>\<open>handleDblClick\<close> of MapEvents. The handler does not read the event: \<open>point\<close>, its
  \<^verbatim>\<open>latlng\<close>, is an argument here only to show that.
\<close>

definition handleDblClick :: "string \<Rightarrow> LatLngLiteral \<Rightarrow> AppState \<Rightarrow> AppState" where
  "handleDblClick uuid point st =
     (if drawingMode st = Mode_polyline then
        (let newPolyline = \<lparr> obj_id = uuid, layerId = activeLayerId st,
                             obj_type = Type_polyline, title = ''New Line'',
                             description = ''No description'', position = None,
                             center = None, radius = None,
                             positions = Some (tempPoints st) \<rparr>;
             st1 = (if 1 < length (tempPoints st) then handleNewObject newPolyline st else st)
         in switchMode Mode_none (st1\<lparr>tempPoints := []\<rparr>))
      else if drawingMode st = Mode_polygon then
        (let newPolygon = \<lparr> obj_id = uuid, layerId = activeLayerId st,
                            obj_type = Type_polygon, title = ''New Polygon'',
                            description = ''No description'', position = None,
                            center = None, radius = None,
                            positions = Some (tempPoints st) \<rparr>;
             st1 = (if 2 < length (tempPoints st) then handleNewObject newPolygon st else st)
         in switchMode Mode_none (st1\<lparr>tempPoints := []\<rparr>))
      else if drawingMode st = Mode_ruler then switchMode Mode_none st
      else st)"

text \<open>
  \<^verbatim>\<open>handleObjectClick\<close> of App: a click on an object's entry in the sidebar (the
  navigation request it also issues is not part of the state here).
\<close>

definition handleObjectClick :: "string \<Rightarrow> AppState \<Rightarrow> AppState" where
  "handleObjectClick i st = st\<lparr>selectedObjectId := Some i\<rparr>"

text \<open>\<^verbatim>\<open>DEFAULT_LAYERS\<close> and the initial values of the state cells of App and MapEvents.\<close>

definition DEFAULT_LAYERS :: "Layer list" where
  "DEFAULT_LAYERS =
     [\<lparr> layer_id = ''1'', name = ''Points of Interest'', visible = True,
         style = \<lparr> borderColor = ''#ef4444'', borderWidth = 2, fillColor = ''#ef4444'',
                   fillOpacity = 2 / 10 \<rparr> \<rparr>,
      \<lparr> layer_id = ''2'', name = ''Boundaries'', visible = True,
         style = \<lparr> borderColor = ''#3b82f6'', borderWidth = 2, fillColor = ''#3b82f6'',
                   fillOpacity = 2 / 10 \<rparr> \<rparr>]"

definition initialState :: AppState where
  "initialState =
     \<lparr> user = None, layers = DEFAULT_LAYERS, activeLayerId = ''1'', objects = [],
       drawingMode = Mode_none, selectedObjectId = None, rulerPoints = [],
       tempPoints = [], circleCenter = None, dragPoint = None, persisted = [] \<rparr>"

section \<open>Numeric input of the circle radius (MapBoard, lines 223 to 262 and 378 to 383)\<close>















section \<open>Project files (src/utils/fileImporter.ts, lines 294 to 331; App, lines 175 to 201)\<close>

text \<open>
  Run-time values, as far as project files need them. An object is the list of its
  properties in creation order.
\<close>

datatype js =
  js_null
| js_bool bool
| js_num number
| js_str string
| js_array "js list"
| js_object "(string \<times> js) list"

text \<open>
  What a JSON text denotes. The text itself (spacing, escapes, the digits of a number)
  is the business of \<^verbatim>\<open>JSON.stringify\<close> and \<^verbatim>\<open>JSON.parse\<close> and is not modelled.
\<close>

datatype json =
  J_null
| J_bool bool
| J_number real
| J_string string
| J_array "json list"
| J_object "(string \<times> json) list"


primrec JSON_parse :: "json \<Rightarrow> js" where
  "JSON_parse J_null = js_null"
| "JSON_parse (J_bool b) = js_bool b"
| "JSON_parse (J_number r) = js_num (Fin r)"
| "JSON_parse (J_string s) = js_str s"
| "JSON_parse (J_array xs) = js_array (map JSON_parse xs)"
| "JSON_parse (J_object kvs) = js_object (map (map_prod id JSON_parse) kvs)"

text \<open>
  Reading a property of a value that is not \<^verbatim>\<open>null\<close>; \<open>None\<close> is \<^verbatim>\<open>undefined\<close>. A later
  binding of a key overrides an earlier one, as in an object literal and in
  \<^verbatim>\<open>JSON.parse\<close>. Values that are not objects have none of the properties read here.
\<close>

fun getProp :: "js \<Rightarrow> string \<Rightarrow> js option" where
  "getProp (js_object kvs) k = map_of (rev kvs) k"
| "getProp _ k = None"

text \<open>\<^verbatim>\<open>ToBoolean\<close>. (\<^verbatim>\<open>undefined\<close>, the \<open>None\<close> of \<^const>\<open>getProp\<close>, is falsy.)\<close>

fun truthy :: "js \<Rightarrow> bool" where
  "truthy js_null = False"
| "truthy (js_bool b) = b"
| "truthy (js_num n) = (n \<noteq> NaN \<and> n \<noteq> Fin 0)"
| "truthy (js_str s) = (s \<noteq> [])"
| "truthy (js_array xs) = True"
| "truthy (js_object kvs) = True"









text \<open>
  What \<^verbatim>\<open>FileReader.readAsText\<close> and \<^verbatim>\<open>JSON.parse\<close> make of a file: the read fails, the
  text is not JSON, or it is the text of a JSON value.
\<close>

datatype file_content = Unreadable | Not_JSON | JSON_text json

datatype js_error = Error string | SyntaxError | TypeError

text \<open>
  \<^verbatim>\<open>loadProjectFromFile\<close>: \<open>Inl\<close> is the rejection of the promise, \<open>Inr\<close> its value.
  \<^verbatim>\<open>json.layers\<close> on \<^verbatim>\<open>null\<close> throws a TypeError, which the \<^verbatim>\<open>catch\<close> turns into a
  rejection like the other two.
\<close>

definition loadProjectFromFile :: "file_content \<Rightarrow> js_error + js \<times> js" where
  "loadProjectFromFile file =
     (case file of
        Unreadable \<Rightarrow> Inl (Error ''Failed to read file'')
      | Not_JSON \<Rightarrow> Inl SyntaxError
      | JSON_text t \<Rightarrow>
          (let json = JSON_parse t
           in if json = js_null then Inl TypeError
              else
                (case getProp json ''layers'' of
                   None \<Rightarrow> Inl (Error ''Invalid project file format'')
                 | Some ls \<Rightarrow>
                     if \<not> truthy ls then Inl (Error ''Invalid project file format'')
                     else
                       (case getProp json ''objects'' of
                          None \<Rightarrow> Inl (Error ''Invalid project file format'')
                        | Some os \<Rightarrow>
                            if \<not> truthy os then Inl (Error ''Invalid project file format'')
                            else Inr (ls, os)))))"















text \<open>The selection is empty or is the id of an object of the collection.\<close>

definition selectionValid :: "AppState \<Rightarrow> bool" where
  "selectionValid st =
     (case selectedObjectId st of None \<Rightarrow> True | Some j \<Rightarrow> j \<in> obj_id ` set (objects st))"

section \<open>Example data\<close>

definition example_point :: MapObject where
  "example_point =
     \<lparr> obj_id = ''p1'', layerId = ''1'', obj_type = Type_point, title = ''New Point'',
       description = ''No description'', position = Some \<lparr> lat = 1, lng = 2 \<rparr>,
       center = None, radius = None, positions = None \<rparr>"

definition example_circle :: MapObject where
  "example_circle =
     \<lparr> obj_id = ''c1'', layerId = ''2'', obj_type = Type_circle, title = ''New Circle'',
       description = ''No description'', position = None,
       center = Some \<lparr> lat = 0, lng = 0 \<rparr>, radius = Some (Fin 100), positions = None \<rparr>"

definition example_state :: AppState where
  "example_state =
     initialState\<lparr> user := Some ''u'', objects := [example_point, example_circle],
                   selectedObjectId := Some ''c1'' \<rparr>"

text \<open>The toolbar's Line tool, then two clicks on the map.\<close>

definition polyline_in_progress :: AppState where
  "polyline_in_progress =
     handleClick ''u2'' \<lparr> lat = 1, lng = 0 \<rparr>
       (handleClick ''u1'' \<lparr> lat = 0, lng = 0 \<rparr> (switchMode Mode_polyline initialState))"



text \<open>
  The Point tool, one click that creates the point \<open>a\<close> in layer 1, then a click on
  that point's entry in the sidebar.
\<close>

definition point_selected :: AppState where
  "point_selected =
     handleObjectClick ''a''
       (handleClick ''a'' \<lparr> lat = 1, lng = 2 \<rparr> (switchMode Mode_point initialState))"

section \<open>Auxiliary facts\<close>

lemma persist_fields [simp]:
  "user (persist c st) = user st"
  "layers (persist c st) = layers st"
  "activeLayerId (persist c st) = activeLayerId st"
  "objects (persist c st) = objects st"
  "drawingMode (persist c st) = drawingMode st"
  "selectedObjectId (persist c st) = selectedObjectId st"
  "rulerPoints (persist c st) = rulerPoints st"
  "tempPoints (persist c st) = tempPoints st"
  "circleCenter (persist c st) = circleCenter st"
  "dragPoint (persist c st) = dragPoint st"
  by (simp_all add: persist_def split: option.splits)


section \<open>GeoMath: symmetry and coincident points\<close>



lemma cos_sq_minus_sin_sq:
  fixes u v :: real
  shows "cos u * cos u - sin v * sin v = cos (u + v) * cos (u - v)"
proof -
  have su: "sin u * sin u = 1 - cos u * cos u"
    using sin_cos_squared_add [of u] by (simp add: power2_eq_square)
  have cv: "cos v * cos v = 1 - sin v * sin v"
    using sin_cos_squared_add [of v] by (simp add: power2_eq_square)
  have "cos (u + v) * cos (u - v) =
        (cos u * cos u) * (cos v * cos v) - (sin u * sin u) * (sin v * sin v)"
    by (simp add: cos_add cos_diff algebra_simps)
  also have "\<dots> = cos u * cos u - sin v * sin v"
    unfolding su cv by (simp add: algebra_simps)
  finally show ?thesis by simp
qed

lemma between_in_unit_interval:
  fixes t x y :: real
  assumes "0 \<le> t" "t \<le> 1" "0 \<le> x" "x \<le> 1" "0 \<le> y" "y \<le> 1"
  shows "0 \<le> x + t * (y - x) \<and> x + t * (y - x) \<le> 1"
proof -
  have e: "x + t * (y - x) = (1 - t) * x + t * y" by (simp add: algebra_simps)
  have "0 \<le> (1 - t) * x" "0 \<le> t * y" using assms by simp_all
  moreover have "(1 - t) * x \<le> (1 - t) * 1" using assms by (intro mult_left_mono) simp_all
  moreover have "t * y \<le> t * 1" using assms by (intro mult_left_mono) simp_all
  ultimately show ?thesis unfolding e by simp
qed

lemma sin_sq_unit: "0 \<le> sin (x::real) * sin x \<and> sin x * sin x \<le> 1"
proof -
  have "sin x * sin x + cos x * cos x = 1"
    using sin_cos_squared_add [of x] by (simp add: power2_eq_square)
  moreover have "0 \<le> cos x * cos x" "0 \<le> sin x * sin x" by simp_all
  ultimately show ?thesis by linarith
qed

lemma cos_sq_unit: "0 \<le> cos (x::real) * cos x \<and> cos x * cos x \<le> 1"
proof -
  have "sin x * sin x + cos x * cos x = 1"
    using sin_cos_squared_add [of x] by (simp add: power2_eq_square)
  moreover have "0 \<le> cos x * cos x" "0 \<le> sin x * sin x" by simp_all
  ultimately show ?thesis by linarith
qed

text \<open>
  The term \<open>a\<close> of \<^const>\<open>calculateDistance\<close> is between 0 and 1 for all arguments:
  it lies between \<open>sin\<^sup>2 ((\<phi>\<^sub>2 - \<phi>\<^sub>1) / 2)\<close> and \<open>cos\<^sup>2 ((\<phi>\<^sub>2 + \<phi>\<^sub>1) / 2)\<close>.
\<close>

lemma haversine_a_range:
  "0 \<le> sin (toRad (lat2 - lat1) / 2) * sin (toRad (lat2 - lat1) / 2) +
        cos (toRad lat1) * cos (toRad lat2) *
        sin (toRad (lon2 - lon1) / 2) * sin (toRad (lon2 - lon1) / 2) \<and>
   sin (toRad (lat2 - lat1) / 2) * sin (toRad (lat2 - lat1) / 2) +
        cos (toRad lat1) * cos (toRad lat2) *
        sin (toRad (lon2 - lon1) / 2) * sin (toRad (lon2 - lon1) / 2) \<le> 1"
proof -
  let ?p1 = "toRad lat1" and ?p2 = "toRad lat2" and ?d = "toRad (lon2 - lon1)"
  let ?u = "(?p2 + ?p1) / 2" and ?v = "(?p2 - ?p1) / 2"
  let ?t = "sin (?d / 2) * sin (?d / 2)"
  have dl: "toRad (lat2 - lat1) / 2 = ?v"
    by (simp add: toRad_def left_diff_distrib diff_divide_distrib)
  have uv: "?u + ?v = ?p2" "?u - ?v = ?p1" by (simp_all add: field_simps)
  have "cos ?u * cos ?u - sin ?v * sin ?v = cos ?p2 * cos ?p1"
    using cos_sq_minus_sin_sq [of ?u ?v] unfolding uv .
  then have e: "sin ?v * sin ?v + cos ?p1 * cos ?p2 * sin (?d / 2) * sin (?d / 2) =
      sin ?v * sin ?v + ?t * (cos ?u * cos ?u - sin ?v * sin ?v)"
    by (simp add: algebra_simps)
  show ?thesis unfolding dl e
    using sin_sq_unit [of "?d / 2"] sin_sq_unit [of ?v] cos_sq_unit [of ?u]
    by (intro between_in_unit_interval) simp_all
qed



section \<open>Layer deletion\<close>

text \<open>
  Claim C10. Deleting layer \<open>i\<close> removes from the object collection exactly the objects
  whose \<open>layerId\<close> is \<open>i\<close> and from the layer list the layers with id \<open>i\<close>; what stays is
  unchanged and in its old order. With one layer or none the delete changes nothing.
\<close>

theorem handleDeleteLayer_removes_layer_objects:
  "(length (layers st) \<le> 1 \<longrightarrow> handleDeleteLayer i st = st) \<and>
   (1 < length (layers st) \<longrightarrow>
      objects (handleDeleteLayer i st) = filter (\<lambda>x. layerId x \<noteq> i) (objects st) \<and>
      layers (handleDeleteLayer i st) = filter (\<lambda>l. layer_id l \<noteq> i) (layers st) \<and>
      (\<forall>x. x \<in> set (objects (handleDeleteLayer i st)) \<longleftrightarrow>
             x \<in> set (objects st) \<and> layerId x \<noteq> i) \<and>
      (\<forall>l. l \<in> set (layers (handleDeleteLayer i st)) \<longleftrightarrow>
             l \<in> set (layers st) \<and> layer_id l \<noteq> i))"
proof (intro conjI impI)
  assume "length (layers st) \<le> 1"
  then show "handleDeleteLayer i st = st" by (simp add: handleDeleteLayer_def)
next
  assume two: "1 < length (layers st)"
  then show os: "objects (handleDeleteLayer i st) = filter (\<lambda>x. layerId x \<noteq> i) (objects st)"
    by (simp add: handleDeleteLayer_def Let_def split: list.splits)
  from two show ls: "layers (handleDeleteLayer i st) = filter (\<lambda>l. layer_id l \<noteq> i) (layers st)"
    by (simp add: handleDeleteLayer_def Let_def split: list.splits)
  show "\<forall>x. x \<in> set (objects (handleDeleteLayer i st)) \<longleftrightarrow>
             x \<in> set (objects st) \<and> layerId x \<noteq> i"
    by (simp add: os)
  show "\<forall>l. l \<in> set (layers (handleDeleteLayer i st)) \<longleftrightarrow>
             l \<in> set (layers st) \<and> layer_id l \<noteq> i"
    by (simp add: ls)
qed

theorem handleDeleteLayer_witness:
  "1 < length (layers example_state) \<and>
   objects (handleDeleteLayer ''2'' example_state) = [example_point] \<and>
   map layer_id (layers (handleDeleteLayer ''2'' example_state)) = [''1''] \<and>
   length (layers (example_state\<lparr>layers := [hd DEFAULT_LAYERS]\<rparr>)) \<le> 1 \<and>
   handleDeleteLayer ''1'' (example_state\<lparr>layers := [hd DEFAULT_LAYERS]\<rparr>) =
     example_state\<lparr>layers := [hd DEFAULT_LAYERS]\<rparr>"
  using handleDeleteLayer_removes_layer_objects [of example_state "''2''"]
    handleDeleteLayer_removes_layer_objects
      [of "example_state\<lparr>layers := [hd DEFAULT_LAYERS]\<rparr>" "''1''"]
  by (simp add: example_state_def initialState_def DEFAULT_LAYERS_def example_point_def
      example_circle_def)

section \<open>Drawing session\<close>

text \<open>What a mode switch to another mode clears, and what it keeps.\<close>

lemma switchMode_clears:
  assumes "mode \<noteq> drawingMode st"
  shows "drawingMode (switchMode mode st) = mode"
    and "mode \<noteq> Mode_circle \<Longrightarrow>
           circleCenter (switchMode mode st) = None \<and> dragPoint (switchMode mode st) = None"
    and "mode \<noteq> Mode_ruler \<Longrightarrow> rulerPoints (switchMode mode st) = []"
    and "mode \<noteq> Mode_polyline \<Longrightarrow> mode \<noteq> Mode_polygon \<Longrightarrow> tempPoints (switchMode mode st) = []"
    and "mode = Mode_polyline \<or> mode = Mode_polygon \<Longrightarrow>
           tempPoints (switchMode mode st) = tempPoints st"
  using assms
  by (auto simp: switchMode_def handleSetDrawingMode_def clearTemporaryState_def Let_def)

text \<open>
  Claim C1. A switch from a drawing mode to any other mode discards the state in
  progress of the mode that is left: afterwards the point accumulator of polyline and
  polygon is empty, the circle center and preview are cleared, and the ruler points
  are cleared.

  The code does not do this between polyline and polygon. The Line tool and two clicks
  give a polyline in progress with two points. The Polygon tool then changes the mode
  and keeps both points; one more click and a double click store a polygon with the two
  points that were clicked in polyline mode.
\<close>

theorem polyline_points_survive_switch_to_polygon:
  "drawingMode polyline_in_progress = Mode_polyline \<and>
   tempPoints polyline_in_progress = [\<lparr>lat = 0, lng = 0\<rparr>, \<lparr>lat = 1, lng = 0\<rparr>] \<and>
   drawingMode (switchMode Mode_polygon polyline_in_progress) = Mode_polygon \<and>
   tempPoints (switchMode Mode_polygon polyline_in_progress) =
     [\<lparr>lat = 0, lng = 0\<rparr>, \<lparr>lat = 1, lng = 0\<rparr>] \<and>
   map positions
     (objects (handleDblClick ''id'' \<lparr>lat = 1, lng = 1\<rparr>
        (handleClick ''u3'' \<lparr>lat = 1, lng = 1\<rparr>
           (switchMode Mode_polygon polyline_in_progress)))) =
     [Some [\<lparr>lat = 0, lng = 0\<rparr>, \<lparr>lat = 1, lng = 0\<rparr>, \<lparr>lat = 1, lng = 1\<rparr>]]"
  by (simp add: handleClick_def handleDblClick_def switchMode_def handleSetDrawingMode_def
      clearTemporaryState_def handleNewObject_def Let_def persist_def
      polyline_in_progress_def initialState_def)





section \<open>Object store\<close>



text \<open>Without the uniqueness of ids: every object with id \<open>i\<close> becomes the merged first one.\<close>

lemma handleObjectUpdate_first_match:
  assumes "find (\<lambda>x. obj_id x = i) (objects st) = Some target"
  shows "objects (handleObjectUpdate i F st) =
           map (\<lambda>x. if obj_id x = i then spread target F else x) (objects st)"
  using assms by (simp add: handleObjectUpdate_def Let_def)



section \<open>Selection\<close>

text \<open>Deleting the selected object with \<^const>\<open>deleteObject\<close> clears the selection.\<close>

lemma deleteObject_clears_selection:
  "selectedObjectId st = Some i \<Longrightarrow>
     selectedObjectId (deleteObject i st) = None \<and>
     objects (deleteObject i st) = filter (\<lambda>x. obj_id x \<noteq> i) (objects st) \<and>
     i \<notin> obj_id ` set (objects (deleteObject i st))"
  by (auto simp: deleteObject_def Let_def)

text \<open>\<^const>\<open>deleteObject\<close> never makes a valid selection dangle.\<close>

lemma deleteObject_keeps_selectionValid:
  "selectionValid st \<Longrightarrow> selectionValid (deleteObject i st)"
  by (auto simp: selectionValid_def deleteObject_def Let_def split: option.splits)

text \<open>
  Claim C9. When the selected object has id \<open>i\<close>, deleting the object with id \<open>i\<close>
  removes it from the collection and clears the selection in the same step, so that no
  reachable state has a selection that refers to an id absent from the collection.

  \<^const>\<open>deleteObject\<close> does so (the two lemmas above), but deleting a layer does not: from
  the initial state, draw the point \<open>a\<close> (it is in layer 1), select it, and delete
  layer 1. The point is gone and the selection still names it.
\<close>

theorem handleDeleteLayer_leaves_dangling_selection:
  "map obj_id (objects point_selected) = [''a''] \<and>
   map layerId (objects point_selected) = [''1''] \<and>
   selectedObjectId point_selected = Some ''a'' \<and>
   selectionValid point_selected \<and>
   objects (handleDeleteLayer ''1'' point_selected) = [] \<and>
   selectedObjectId (handleDeleteLayer ''1'' point_selected) = Some ''a'' \<and>
   \<not> selectionValid (handleDeleteLayer ''1'' point_selected)"
  by (simp add: handleObjectClick_def handleClick_def switchMode_def handleSetDrawingMode_def
      clearTemporaryState_def handleNewObject_def handleDeleteLayer_def selectionValid_def
      persist_def Let_def point_selected_def initialState_def DEFAULT_LAYERS_def)

section \<open>Numeric input of the circle radius\<close>







section \<open>Project files\<close>













text \<open>The rejections that do not carry the message of the load path itself.\<close>

lemma loadProjectFromFile_other_rejections:
  "loadProjectFromFile Unreadable = Inl (Error ''Failed to read file'')"
  "loadProjectFromFile Not_JSON = Inl SyntaxError"
  "loadProjectFromFile (JSON_text J_null) = Inl TypeError"
  by (simp_all add: loadProjectFromFile_def)







end
